theory Spec2Isabelle
  imports Complex_Main
begin

section \<open>The bisection solver of \<^verbatim>\<open>src/bisection_method.py\<close>\<close>

text \<open>
  The module defines the cubic \<^verbatim>\<open>f\<close> and the solver \<^verbatim>\<open>bisection_method\<close>, then runs
  the solver on the bracket \<^verbatim>\<open>[0, 2]\<close> and prints, plots and saves the result.  The
  embedding covers \<^verbatim>\<open>f\<close> and \<^verbatim>\<open>bisection_method\<close>; printing, plotting and the CSV
  file are output only and have no counterpart here.

  Numbers.  Python evaluates the solver in double-precision floating point.  The
  embedding computes over \<^typ>\<open>real\<close>: every statement below is about exact arithmetic,
  and rounding, overflow, infinities and NaN are outside the model.  All concrete inputs
  used below are small dyadic rationals, on which the floating-point run performs the same
  exact operations.

  Failures.  Python raises \<^verbatim>\<open>ZeroDivisionError\<close> when the float divisor of
  \<^verbatim>\<open>(c - c_old) / c\<close> is zero, and \<^verbatim>\<open>UnboundLocalError\<close> when \<^verbatim>\<open>return c, df\<close> reads
  \<^verbatim>\<open>c\<close> before any iteration has assigned it.  Both are values of \<open>py_error\<close>, and a
  call that raises is \<open>Inl\<close> of the error.
\<close>

subsection \<open>The example function\<close>

text \<open>\<^verbatim>\<open>def f(x): return x**3 - 2*x**2 - 5*x + 6\<close>\<close>

definition f :: "real \<Rightarrow> real" where
  "f x = x ^ 3 - 2 * x ^ 2 - 5 * x + 6"

subsection \<open>Data\<close>

datatype py_error = ZeroDivisionError | UnboundLocalError

text \<open>
  The solver appends to eight parallel lists, once each per iteration and always
  together, and builds the data frame from them with one column per list.  A \<open>row\<close> is
  one line of that frame: the values appended in one iteration, under the names of the
  frame's columns (\<^verbatim>\<open>Iteration\<close>, \<^verbatim>\<open>a\<close>, \<^verbatim>\<open>b\<close>, \<^verbatim>\<open>c (midpoint)\<close>, \<^verbatim>\<open>f(a)\<close>, \<^verbatim>\<open>f(b)\<close>,
  \<^verbatim>\<open>f(c)\<close>, \<^verbatim>\<open>Error (%)\<close>).
\<close>

record row =
  Iteration :: int
  a_col :: real
  b_col :: real
  c_col :: real
  f_a_col :: real
  f_b_col :: real
  f_c_col :: real
  Error_col :: real

text \<open>
  The local variables of \<^verbatim>\<open>bisection_method\<close> that live across iterations.  \<open>v_i\<close> and
  \<open>v_c\<close> are \<open>None\<close> while Python has not bound \<^verbatim>\<open>i\<close> and \<^verbatim>\<open>c\<close> yet.
\<close>

record vars =
  v_a :: real
  v_b :: real
  v_c_old :: real
  v_i :: "int option"
  v_c :: "real option"
  rows :: "row list"

text \<open>How one pass through the loop body ends: it falls through to the next iteration,
  leaves the loop by \<^verbatim>\<open>break\<close>, or raises.\<close>

datatype outcome = Continue vars | Break vars | Raise py_error

subsection \<open>The solver\<close>

text \<open>
  The body of \<^verbatim>\<open>for i in range(max_iterations)\<close>, in the order of the source: the
  midpoint, the three function values, the relative error (the division raises for a zero
  midpoint once \<^verbatim>\<open>i > 0\<close>), the eight appends, the convergence test with its \<^verbatim>\<open>break\<close>,
  the update of one endpoint, and \<^verbatim>\<open>c_old = c\<close>.
\<close>

definition body :: "(real \<Rightarrow> real) \<Rightarrow> real \<Rightarrow> int \<Rightarrow> vars \<Rightarrow> outcome" where
  "body func tolerance i s =
    (let a = v_a s; b = v_b s;
         c = (a + b) / 2;
         f_a = func a; f_b = func b; f_c = func c
     in if i > 0 \<and> c = 0 then Raise ZeroDivisionError
        else
          let error = (if i > 0 then \<bar>(c - v_c_old s) / c\<bar> * 100 else 100);
              s1 = s\<lparr>v_i := Some i, v_c := Some c,
                     rows := rows s @
                       [\<lparr>Iteration = i + 1, a_col = a, b_col = b, c_col = c,
                         f_a_col = f_a, f_b_col = f_b, f_c_col = f_c, Error_col = error\<rparr>]\<rparr>
          in if \<bar>f_c\<bar> < tolerance \<or> error < tolerance then Break s1
             else if f_a * f_c < 0 then Continue (s1\<lparr>v_b := c, v_c_old := c\<rparr>)
             else Continue (s1\<lparr>v_a := c, v_c_old := c\<rparr>))"

text \<open>The \<^verbatim>\<open>for\<close> loop over the values of the range, in order.\<close>

fun loop :: "(real \<Rightarrow> real) \<Rightarrow> real \<Rightarrow> int list \<Rightarrow> vars \<Rightarrow> py_error + vars" where
  "loop func tolerance [] s = Inr s"
| "loop func tolerance (i # is) s =
     (case body func tolerance i s of
        Raise e \<Rightarrow> Inl e
      | Break s' \<Rightarrow> Inr s'
      | Continue s' \<Rightarrow> loop func tolerance is s')"

text \<open>\<^verbatim>\<open>range(n)\<close>: the integers from \<open>0\<close> to \<open>n - 1\<close>, none when \<open>n \<le> 0\<close>.\<close>

definition range_py :: "int \<Rightarrow> int list" where
  "range_py n = [0..n - 1]"

text \<open>The variables as they stand when the loop is entered: the lists empty,
  \<^verbatim>\<open>c_old = a\<close>, and \<^verbatim>\<open>i\<close> and \<^verbatim>\<open>c\<close> unbound.\<close>

definition init_vars :: "real \<Rightarrow> real \<Rightarrow> vars" where
  "init_vars a b = \<lparr>v_a = a, v_b = b, v_c_old = a, v_i = None, v_c = None, rows = []\<rparr>"

text \<open>
  \<^verbatim>\<open>bisection_method(func, a, b, tolerance, max_iterations)\<close>.  The result is the pair
  the source returns: \<open>(None, None)\<close> for a rejected bracket, otherwise the last midpoint
  and the data frame (its rows).  Reading the unbound \<^verbatim>\<open>c\<close> in \<^verbatim>\<open>return c, df\<close> raises.
\<close>

definition bisection_method ::
  "(real \<Rightarrow> real) \<Rightarrow> real \<Rightarrow> real \<Rightarrow> real \<Rightarrow> int \<Rightarrow> py_error + (real option \<times> row list option)" where
  "bisection_method func a b tolerance max_iterations =
    (if func a * func b \<ge> 0 then Inr (None, None)
     else
       case loop func tolerance (range_py max_iterations) (init_vars a b) of
         Inl e \<Rightarrow> Inl e
       | Inr s \<Rightarrow>
           (case v_c s of
              None \<Rightarrow> Inl UnboundLocalError
            | Some c \<Rightarrow> Inr (Some c, Some (rows s))))"

subsection \<open>The rejected bracket\<close>

text \<open>
  Claim C3.  Whenever \<open>func a * func b \<ge> 0\<close>, whatever the tolerance and the iteration
  budget, the solver returns before the loop is entered, with no root estimate and no
  frame: the pair \<open>(None, None)\<close>.  No row is ever produced.
\<close>

theorem invalid_bracket_rejected:
  "func a * func b \<ge> 0 \<Longrightarrow> bisection_method func a b tolerance max_iterations = Inr (None, None)"
  by (simp add: bisection_method_def)

theorem invalid_bracket_rejected_witness:
  "f 0 * f 0 \<ge> 0 \<and> bisection_method f 0 0 (1 / 1000000) 50 = Inr (None, None)"
  using invalid_bracket_rejected [of f 0 0 "1 / 1000000" 50]
  by (simp add: f_def)

end
